theory Spec2Isabelle
  imports Complex_Main "HOL-Library.AList" "HOL-Library.Char_ord" "HOL-Library.List_Lexorder"
begin

section \<open>Domain types (src/lib/types.ts)\<close>

text \<open>
  The task state and analytics engine of the FocusFlow dashboard: the reducer of
  \<^verbatim>\<open>useDashboardState.ts\<close>, the analytics helpers and the LocalStorage gateway.

  A TypeScript field of type \<^verbatim>\<open>T | null | undefined\<close> (an optional, nullable field)
  has three kinds of value; an optional field \<^verbatim>\<open>f?: T\<close> is an \<open>option\<close>, where
  \<open>None\<close> stands for a field that is absent or \<^verbatim>\<open>undefined\<close>.
\<close>

datatype 'a nullable = Undefined | Null | Val 'a

datatype TaskStatus = Todo | InProgress | Done | Archived

datatype TaskPriority = Low | Medium | High

text \<open>
  A JavaScript number: the finite doubles are abstracted to rationals, the three
  non-finite values are kept apart.
\<close>

datatype jsnum = Fin rat | NaN | PosInfinity | NegInfinity

record Project =
  id_project :: string
  name_project :: string
  color :: string
  createdAt_project :: string

record Task =
  id_task :: string
  title :: string
  description :: "string option"
  status :: TaskStatus
  priority :: TaskPriority
  projectId :: "string nullable"
  dueDate :: "string nullable"
  createdAt :: string
  updatedAt :: string
  completedAt :: "string nullable"
  isPinned :: "bool option"
  tags :: "string list option"

record CompletionEntry =
  date :: string
  count :: jsnum

record AppSettings =
  defaultProjectId :: "string nullable"
  confirmBeforeDelete :: bool
  enableSounds :: bool
  showOnboarding :: bool

record PersistedState =
  version :: jsnum
  tasks :: "Task list"
  projects :: "Project list"
  settings :: AppSettings
  completionHistory :: "CompletionEntry list"

text \<open>\<^verbatim>\<open>type State = PersistedState & { lastDeletedTask?: Task | null }\<close>; the reducer only
  ever stores \<^verbatim>\<open>null\<close> (\<open>None\<close>) or a task in the slot.\<close>

record State = PersistedState +
  lastDeletedTask :: "Task option"

record CreateTaskInput =
  title_in :: string
  description_in :: "string option"
  projectId_in :: "string nullable"
  priority_in :: "TaskPriority option"
  dueDate_in :: "string nullable"

text \<open>
  \<^verbatim>\<open>Partial<Task>\<close>: every key may be absent (\<open>None\<close>) or present with a value of the
  field's type.
\<close>

record TaskPatch =
  id_patch :: "string option"
  title_patch :: "string option"
  description_patch :: "string option option"
  status_patch :: "TaskStatus option"
  priority_patch :: "TaskPriority option"
  projectId_patch :: "string nullable option"
  dueDate_patch :: "string nullable option"
  createdAt_patch :: "string option"
  updatedAt_patch :: "string option"
  completedAt_patch :: "string nullable option"
  isPinned_patch :: "bool option option"
  tags_patch :: "string list option option"

record SettingsPatch =
  defaultProjectId_patch :: "string nullable option"
  confirmBeforeDelete_patch :: "bool option"
  enableSounds_patch :: "bool option"
  showOnboarding_patch :: "bool option"

datatype Action =
    Hydrate PersistedState
  | CreateTask CreateTaskInput
  | UpdateTask string TaskPatch
  | DeleteTask string
  | BulkUpdateStatus "string list" TaskStatus
  | RestoreLastDeleted
  | UpdateSettings SettingsPatch
  | CreateProject string string

section \<open>JavaScript operators used by the engine\<close>

text \<open>\<^verbatim>\<open>a ?? b\<close>: \<open>b\<close> when \<open>a\<close> is \<^verbatim>\<open>null\<close> or \<^verbatim>\<open>undefined\<close>.\<close>

fun coalesce :: "'a nullable \<Rightarrow> 'a nullable \<Rightarrow> 'a nullable" where
  "coalesce (Val v) b = Val v"
| "coalesce Undefined b = b"
| "coalesce Null b = b"

text \<open>Truthiness of a \<^verbatim>\<open>string | null | undefined\<close>: the empty string is falsy too.\<close>

fun truthy :: "string nullable \<Rightarrow> bool" where
  "truthy (Val s) = (s \<noteq> [])"
| "truthy Undefined = False"
| "truthy Null = False"

text \<open>\<^verbatim>\<open>x != null\<close>: neither \<^verbatim>\<open>null\<close> nor \<^verbatim>\<open>undefined\<close>.\<close>

fun is_set :: "'a nullable \<Rightarrow> bool" where
  "is_set (Val v) = True"
| "is_set Undefined = False"
| "is_set Null = False"

text \<open>One key of an object spread \<^verbatim>\<open>{...old, ...patch}\<close>: a key present in the patch wins.\<close>

fun spread :: "'a \<Rightarrow> 'a option \<Rightarrow> 'a" where
  "spread old None = old"
| "spread old (Some v) = v"

text \<open>
  \<^verbatim>\<open>String.prototype.trim\<close> strips white space and line terminators. Among the
  characters of a \<open>string\<close> these are tab, line feed, vertical tab, form feed, carriage
  return, space and the no-break space U+00A0.
\<close>

definition is_space :: "char \<Rightarrow> bool" where
  "is_space c =
     (c \<in> set [CHR 0x09, CHR 0x0A, CHR 0x0B, CHR 0x0C, CHR 0x0D, CHR '' '', CHR 0xA0])"

definition trim :: "string \<Rightarrow> string" where
  "trim s = rev (dropWhile is_space (rev (dropWhile is_space s)))"

section \<open>Analytics (src/lib/analytics.ts)\<close>

text \<open>
  The body of the \<^verbatim>\<open>for (const task of tasks)\<close> loop of \<^verbatim>\<open>computeCompletionHistory\<close>:
  the \<^verbatim>\<open>Map\<close> is an association list in insertion order.
\<close>

fun byDate_step :: "(string \<times> nat) list \<Rightarrow> Task \<Rightarrow> (string \<times> nat) list" where
  "byDate_step byDate task =
     (if \<not> truthy (completedAt task) then byDate
      else (case completedAt task of
              Val c \<Rightarrow>
                (let dateKey = take 10 c
                 in AList.update dateKey
                      ((case map_of byDate dateKey of None \<Rightarrow> 0 | Some n \<Rightarrow> n) + 1) byDate)
            | _ \<Rightarrow> byDate))"

fun byDate_loop :: "(string \<times> nat) list \<Rightarrow> Task list \<Rightarrow> (string \<times> nat) list" where
  "byDate_loop byDate [] = byDate"
| "byDate_loop byDate (task # rest) = byDate_loop (byDate_step byDate task) rest"

text \<open>
  The entries are sorted by day key with the comparator \<^verbatim>\<open>a < b ? -1 : 1\<close>; the keys of
  a \<^verbatim>\<open>Map\<close> are distinct, so this is the ascending order of the keys.
\<close>

definition computeCompletionHistory :: "Task list \<Rightarrow> CompletionEntry list" where
  "computeCompletionHistory ts =
     map (\<lambda>(d, c). \<lparr>date = d, count = Fin (of_nat c)\<rparr>)
       (sort_key fst (byDate_loop [] ts))"

section \<open>The reducer (src/hooks/useDashboardState.ts)\<close>

text \<open>\<^verbatim>\<open>{ ...task, ...patch, updatedAt: now }\<close>\<close>

definition mergeTask :: "Task \<Rightarrow> TaskPatch \<Rightarrow> string \<Rightarrow> Task" where
  "mergeTask task patch now =
     \<lparr>id_task = spread (id_task task) (id_patch patch),
      title = spread (title task) (title_patch patch),
      description = spread (description task) (description_patch patch),
      status = spread (status task) (status_patch patch),
      priority = spread (priority task) (priority_patch patch),
      projectId = spread (projectId task) (projectId_patch patch),
      dueDate = spread (dueDate task) (dueDate_patch patch),
      createdAt = spread (createdAt task) (createdAt_patch patch),
      updatedAt = now,
      completedAt = spread (completedAt task) (completedAt_patch patch),
      isPinned = spread (isPinned task) (isPinned_patch patch),
      tags = spread (tags task) (tags_patch patch)\<rparr>"

text \<open>The callback of \<^verbatim>\<open>state.tasks.map\<close> in the case \<^verbatim>\<open>"bulk-update-status"\<close>.\<close>

definition bulkTask :: "string list \<Rightarrow> TaskStatus \<Rightarrow> string \<Rightarrow> Task \<Rightarrow> Task" where
  "bulkTask ids st now task =
     (if id_task task \<notin> set ids then task
      else task\<lparr>status := st,
                completedAt := (if st = Done then coalesce (completedAt task) (Val now)
                                else completedAt task),
                updatedAt := now\<rparr>)"

text \<open>The task literal built by the case \<^verbatim>\<open>"create-task"\<close>.\<close>

definition newTask :: "string \<Rightarrow> string \<Rightarrow> State \<Rightarrow> CreateTaskInput \<Rightarrow> Task" where
  "newTask now uid state payload =
     \<lparr>id_task = uid,
      title = trim (title_in payload),
      description = Some (case description_in payload of None \<Rightarrow> [] | Some d \<Rightarrow> trim d),
      status = Todo,
      priority = (case priority_in payload of None \<Rightarrow> Medium | Some p \<Rightarrow> p),
      projectId = coalesce (projectId_in payload)
                    (coalesce (defaultProjectId (settings state)) Null),
      dueDate = coalesce (dueDate_in payload) Null,
      createdAt = now,
      updatedAt = now,
      completedAt = Null,
      isPinned = Some False,
      tags = Some []\<rparr>"

text \<open>
  \<open>reducer now uid state action\<close>: \<open>now\<close> is what \<^verbatim>\<open>new Date().toISOString()\<close> returns
  during the transition and \<open>uid\<close> what \<^verbatim>\<open>uuid()\<close> returns.
\<close>

fun reducer :: "string \<Rightarrow> string \<Rightarrow> State \<Rightarrow> Action \<Rightarrow> State" where
  "reducer now uid state (Hydrate payload) =
     \<lparr>version = version payload, tasks = tasks payload, projects = projects payload,
      settings = settings payload, completionHistory = completionHistory payload,
      lastDeletedTask = None\<rparr>"
| "reducer now uid state (CreateTask payload) =
     (let ts = newTask now uid state payload # tasks state
      in state\<lparr>tasks := ts, completionHistory := computeCompletionHistory ts\<rparr>)"
| "reducer now uid state (UpdateTask i patch) =
     (let ts = map (\<lambda>task. if id_task task = i then mergeTask task patch now else task)
                 (tasks state)
      in state\<lparr>tasks := ts, completionHistory := computeCompletionHistory ts\<rparr>)"
| "reducer now uid state (DeleteTask i) =
     (let task = find (\<lambda>t. id_task t = i) (tasks state);
          ts = filter (\<lambda>t. id_task t \<noteq> i) (tasks state)
      in state\<lparr>tasks := ts, completionHistory := computeCompletionHistory ts,
               lastDeletedTask := task\<rparr>)"
| "reducer now uid state (BulkUpdateStatus ids st) =
     (let ts = map (bulkTask ids st now) (tasks state)
      in state\<lparr>tasks := ts, completionHistory := computeCompletionHistory ts\<rparr>)"
| "reducer now uid state RestoreLastDeleted =
     (case lastDeletedTask state of
        None \<Rightarrow> state
      | Some t \<Rightarrow>
          (let ts = t # tasks state
           in state\<lparr>tasks := ts, completionHistory := computeCompletionHistory ts,
                    lastDeletedTask := None\<rparr>))"
| "reducer now uid state (UpdateSettings patch) =
     state\<lparr>settings :=
       \<lparr>defaultProjectId =
          spread (defaultProjectId (settings state)) (defaultProjectId_patch patch),
        confirmBeforeDelete =
          spread (confirmBeforeDelete (settings state)) (confirmBeforeDelete_patch patch),
        enableSounds = spread (enableSounds (settings state)) (enableSounds_patch patch),
        showOnboarding =
          spread (showOnboarding (settings state)) (showOnboarding_patch patch)\<rparr>\<rparr>"
| "reducer now uid state (CreateProject nm col) =
     state\<lparr>projects := projects state @
       [\<lparr>id_project = uid, name_project = trim nm, color = col, createdAt_project = now\<rparr>]\<rparr>"

text \<open>
  The callers in the dashboard shell (\<^verbatim>\<open>AppShell\<close>): \<^verbatim>\<open>handleCreateTask\<close> trims the
  title and returns before dispatching when nothing is left; \<^verbatim>\<open>handleComplete\<close> toggles
  a task between done and todo and passes the matching \<^verbatim>\<open>completedAt\<close> in the patch.
\<close>

definition emptyPatch :: TaskPatch where
  "emptyPatch =
     \<lparr>id_patch = None, title_patch = None, description_patch = None, status_patch = None,
      priority_patch = None, projectId_patch = None, dueDate_patch = None,
      createdAt_patch = None, updatedAt_patch = None, completedAt_patch = None,
      isPinned_patch = None, tags_patch = None\<rparr>"

definition handleCreateTask :: "string \<Rightarrow> string \<Rightarrow> State \<Rightarrow> string \<Rightarrow> State" where
  "handleCreateTask now uid state ttl =
     (let trimmed = trim ttl
      in if trimmed = [] then state
         else reducer now uid state
                (CreateTask \<lparr>title_in = trimmed, description_in = None,
                   projectId_in = Undefined, priority_in = None, dueDate_in = Undefined\<rparr>))"

definition handleComplete :: "string \<Rightarrow> string \<Rightarrow> State \<Rightarrow> Task \<Rightarrow> State" where
  "handleComplete now uid state task =
     (let st = (if status task = Done then Todo else Done)
      in reducer now uid state
           (UpdateTask (id_task task)
              (emptyPatch\<lparr>status_patch := Some st,
                 completedAt_patch := Some (if st = Done then Val now else Null)\<rparr>)))"

section \<open>The Date object of the platform\<close>

text \<open>
  A \<^verbatim>\<open>Date\<close> is its time value, the milliseconds since the epoch in UTC. The clock of
  a run is what \<^verbatim>\<open>new Date()\<close> returns and the offset of local time from UTC in
  minutes (positive east of Greenwich), taken as fixed: a zone without daylight saving.
\<close>

record Clock =
  nowMs :: int
  tzMinutes :: int

definition msPerDay :: int where
  "msPerDay = 86400000"

text \<open>Day number since the epoch to year, month (1 to 12) and day of the month, and back.\<close>

definition civil_from_days :: "int \<Rightarrow> int \<times> int \<times> int" where
  "civil_from_days z0 =
     (let z = z0 + 719468;
          era = z div 146097;
          doe = z mod 146097;
          yoe = (doe - doe div 1460 + doe div 36524 - doe div 146096) div 365;
          doy = doe - (365 * yoe + yoe div 4 - yoe div 100);
          mp = (5 * doy + 2) div 153;
          d = doy - (153 * mp + 2) div 5 + 1;
          m = (if mp < 10 then mp + 3 else mp - 9);
          y = yoe + era * 400
      in (if m \<le> 2 then y + 1 else y, m, d))"

definition days_from_civil :: "int \<Rightarrow> int \<Rightarrow> int \<Rightarrow> int" where
  "days_from_civil y0 m d =
     (let y = (if m \<le> 2 then y0 - 1 else y0);
          era = y div 400;
          yoe = y - era * 400;
          doy = (153 * (if m > 2 then m - 3 else m + 9) + 2) div 5 + d - 1;
          doe = yoe * 365 + yoe div 4 - yoe div 100 + doy
      in era * 146097 + doe - 719468)"

text \<open>
  \<^verbatim>\<open>MakeDay(year, month, date)\<close> with a month counted from 0: months outside 0 to 11
  carry into the year, days outside the month carry into the neighbouring months.
\<close>

definition MakeDay :: "int \<Rightarrow> int \<Rightarrow> int \<Rightarrow> int" where
  "MakeDay y m d = days_from_civil (y + m div 12) (m mod 12 + 1) d"

definition localTime :: "int \<Rightarrow> int \<Rightarrow> int" where
  "localTime tz t = t + tz * 60000"

definition getFullYear :: "int \<Rightarrow> int \<Rightarrow> int" where
  "getFullYear tz t = (case civil_from_days (localTime tz t div msPerDay) of (y, m, d) \<Rightarrow> y)"

definition getMonth :: "int \<Rightarrow> int \<Rightarrow> int" where
  "getMonth tz t = (case civil_from_days (localTime tz t div msPerDay) of (y, m, d) \<Rightarrow> m - 1)"

definition getDate :: "int \<Rightarrow> int \<Rightarrow> int" where
  "getDate tz t = (case civil_from_days (localTime tz t div msPerDay) of (y, m, d) \<Rightarrow> d)"

text \<open>
  \<^verbatim>\<open>new Date(year, month, date)\<close>: local midnight of that day; a year from 0 to 99 means
  1900 plus the year.
\<close>

definition newDate :: "int \<Rightarrow> int \<Rightarrow> int \<Rightarrow> int \<Rightarrow> int" where
  "newDate tz y m d =
     MakeDay (if 0 \<le> y \<and> y \<le> 99 then 1900 + y else y) m d * msPerDay - tz * 60000"

text \<open>\<^verbatim>\<open>d.setDate(n)\<close>: day \<open>n\<close> of the local month of \<open>d\<close>, at the local time of day of \<open>d\<close>.\<close>

definition setDate :: "int \<Rightarrow> int \<Rightarrow> int \<Rightarrow> int" where
  "setDate tz t n =
     MakeDay (getFullYear tz t) (getMonth tz t) n * msPerDay + localTime tz t mod msPerDay
       - tz * 60000"

definition digit :: "int \<Rightarrow> char" where
  "digit n = ''0123456789'' ! nat (n mod 10)"

definition pad2 :: "int \<Rightarrow> string" where
  "pad2 n = [digit (n div 10), digit n]"

definition pad3 :: "int \<Rightarrow> string" where
  "pad3 n = [digit (n div 100), digit (n div 10), digit n]"

definition pad4 :: "int \<Rightarrow> string" where
  "pad4 n = [digit (n div 1000), digit (n div 100), digit (n div 10), digit n]"

definition pad6 :: "int \<Rightarrow> string" where
  "pad6 n = [digit (n div 100000), digit (n div 10000)] @ pad4 n"

text \<open>
  \<^verbatim>\<open>toISOString\<close>: the UTC date and time, with four digits for the years 0 to 9999 and a
  sign and six digits for the others.
\<close>

definition toISOString :: "int \<Rightarrow> string" where
  "toISOString t =
     (case civil_from_days (t div msPerDay) of
        (y, m, d) \<Rightarrow>
          (let ms = t mod msPerDay
           in (if 0 \<le> y \<and> y \<le> 9999 then pad4 y
               else (if y < 0 then ''-'' else ''+'') @ pad6 (abs y))
              @ ''-'' @ pad2 m @ ''-'' @ pad2 d @ ''T'' @ pad2 (ms div 3600000) @ '':''
              @ pad2 (ms div 60000 mod 60) @ '':'' @ pad2 (ms div 1000 mod 60) @ ''.''
              @ pad3 (ms mod 1000) @ ''Z''))"

section \<open>Analytics summary (src/lib/analytics.ts)\<close>

record AnalyticsSummary =
  totalTasks :: nat
  completedTasks :: nat
  activeTasks :: nat
  completionRate :: jsnum
  streakDays :: nat
  tasksCompletedToday :: jsnum

definition startOfDay :: "int \<Rightarrow> int \<Rightarrow> int" where
  "startOfDay tz d = newDate tz (getFullYear tz d) (getMonth tz d) (getDate tz d)"

definition toDateKey :: "int \<Rightarrow> string" where
  "toDateKey d = take 10 (toISOString d)"

text \<open>
  \<^verbatim>\<open>a / b\<close> on two array lengths: division by zero gives \<^verbatim>\<open>NaN\<close> or \<^verbatim>\<open>Infinity\<close> in
  JavaScript, not an exception.
\<close>

definition js_div :: "nat \<Rightarrow> nat \<Rightarrow> jsnum" where
  "js_div a b =
     (if b = 0 then (if a = 0 then NaN else PosInfinity) else Fin (of_nat a / of_nat b))"

text \<open>\<^verbatim>\<open>t.completedAt && t.completedAt.slice(0, 10) === key\<close>\<close>

definition completedOn :: "string \<Rightarrow> Task \<Rightarrow> bool" where
  "completedOn key t =
     (truthy (completedAt t) \<and> (case completedAt t of Val c \<Rightarrow> take 10 c = key | _ \<Rightarrow> False))"

definition hasCompletion :: "Task list \<Rightarrow> CompletionEntry list \<Rightarrow> string \<Rightarrow> bool" where
  "hasCompletion ts history key = (key \<in> set (map date history) \<or> list_ex (completedOn key) ts)"

text \<open>
  The key of the day \<open>offset\<close> days back, as the body of the streak loop computes it:
  \<^verbatim>\<open>const d = new Date(today); d.setDate(today.getDate() - offset); toDateKey(d)\<close>.
\<close>

definition loopKey :: "int \<Rightarrow> int \<Rightarrow> nat \<Rightarrow> string" where
  "loopKey tz today offset = toDateKey (setDate tz today (getDate tz today - int offset))"

text \<open>The streak loop \<^verbatim>\<open>for (let offset = 0; offset < 365; offset++)\<close>.\<close>

function streak_loop ::
  "int \<Rightarrow> int \<Rightarrow> Task list \<Rightarrow> CompletionEntry list \<Rightarrow> nat \<Rightarrow> nat \<Rightarrow> nat" where
  "streak_loop tz today ts history offset streak =
     (if offset < 365
      then (if hasCompletion ts history (loopKey tz today offset)
            then streak_loop tz today ts history (offset + 1) (streak + 1)
            else streak)
      else streak)"
  by pat_completeness auto
termination
  by (relation "measure (\<lambda>(tz, today, ts, history, offset, streak). 365 - offset)") auto

declare streak_loop.simps [simp del]

definition computeAnalytics ::
  "Clock \<Rightarrow> Task list \<Rightarrow> CompletionEntry list \<Rightarrow> AnalyticsSummary" where
  "computeAnalytics clock ts history =
     (let total = length ts;
          completed = length (filter (\<lambda>t. status t = Done) ts);
          active = length (filter (\<lambda>t. status t = Todo \<or> status t = InProgress) ts);
          rate = (if total = 0 then Fin 0 else js_div completed total);
          today = startOfDay (tzMinutes clock) (nowMs clock);
          todayKey = toDateKey today;
          completedToday =
            (case find (\<lambda>entry. date entry = todayKey) history of
               Some entry \<Rightarrow> count entry
             | None \<Rightarrow> Fin (of_nat (length (filter (completedOn todayKey) ts))))
      in \<lparr>totalTasks = total, completedTasks = completed, activeTasks = active,
          completionRate = rate,
          streakDays = streak_loop (tzMinutes clock) today ts history 0 0,
          tasksCompletedToday = completedToday\<rparr>)"

section \<open>Persistence (src/lib/storage.ts)\<close>

text \<open>
  The values that \<^verbatim>\<open>JSON.parse\<close> returns and \<^verbatim>\<open>JSON.stringify\<close> accepts. An object is
  the list of its own properties in insertion order.
\<close>

datatype jsval =
    JUndefined
  | JNull
  | JBool bool
  | JNum jsnum
  | JStr string
  | JArr "jsval list"
  | JObj "(string \<times> jsval) list"

text \<open>
  A string held by the storage is either the JSON text of a value or a text that
  \<^verbatim>\<open>JSON.parse\<close> rejects with a \<^verbatim>\<open>SyntaxError\<close>.
\<close>

datatype stored = Unparseable string | Json jsval

datatype exn = SyntaxError | SecurityError | QuotaExceededError

text \<open>
  What a value looks like once it has been through \<^verbatim>\<open>JSON.stringify\<close>: a property
  whose value is \<^verbatim>\<open>undefined\<close> is left out, \<^verbatim>\<open>undefined\<close> in an array and the non-finite
  numbers are written as \<^verbatim>\<open>null\<close>.
\<close>

fun jsonify :: "jsval \<Rightarrow> jsval" where
  "jsonify JUndefined = JNull"
| "jsonify JNull = JNull"
| "jsonify (JBool b) = JBool b"
| "jsonify (JNum (Fin r)) = JNum (Fin r)"
| "jsonify (JNum NaN) = JNull"
| "jsonify (JNum PosInfinity) = JNull"
| "jsonify (JNum NegInfinity) = JNull"
| "jsonify (JStr s) = JStr s"
| "jsonify (JArr vs) = JArr (map jsonify vs)"
| "jsonify (JObj kvs) =
     JObj (map (\<lambda>kv. (fst kv, jsonify (snd kv))) (filter (\<lambda>kv. snd kv \<noteq> JUndefined) kvs))"

text \<open>
  \<^verbatim>\<open>JSON.stringify(undefined)\<close> is \<^verbatim>\<open>undefined\<close>, which the storage would keep as the
  text \<^verbatim>\<open>undefined\<close>; every other value gives its JSON text.
\<close>

fun JSON_stringify :: "jsval \<Rightarrow> stored" where
  "JSON_stringify JUndefined = Unparseable ''undefined''"
| "JSON_stringify v = Json (jsonify v)"

fun JSON_parse :: "stored \<Rightarrow> exn + jsval" where
  "JSON_parse (Unparseable s) = Inl SyntaxError"
| "JSON_parse (Json v) = Inr v"

text \<open>\<^verbatim>\<open>!raw\<close> on a string: only the empty string is falsy.\<close>

fun is_empty_text :: "stored \<Rightarrow> bool" where
  "is_empty_text (Unparseable s) = (s = [])"
| "is_empty_text (Json v) = False"

text \<open>Reading a property of a parsed object or array; the keys read are never indices.\<close>

fun getProp :: "jsval \<Rightarrow> string \<Rightarrow> jsval" where
  "getProp (JObj kvs) k = (case map_of kvs k of None \<Rightarrow> JUndefined | Some v \<Rightarrow> v)"
| "getProp v k = JUndefined"

definition STORAGE_KEY :: string where
  "STORAGE_KEY = ''focusflow-state-v1''"

definition CURRENT_VERSION :: jsnum where
  "CURRENT_VERSION = Fin 1"

fun isObject :: "jsval \<Rightarrow> bool" where
  "isObject (JObj kvs) = True"
| "isObject (JArr vs) = True"
| "isObject v = False"

fun coerceArray :: "jsval \<Rightarrow> jsval list" where
  "coerceArray (JArr vs) = vs"
| "coerceArray v = []"

fun coerceBool :: "jsval \<Rightarrow> bool \<Rightarrow> bool" where
  "coerceBool (JBool b) d = b"
| "coerceBool v d = d"

definition coerceSettings :: "jsval \<Rightarrow> AppSettings" where
  "coerceSettings v =
     (if \<not> isObject v
      then \<lparr>defaultProjectId = Null, confirmBeforeDelete = True, enableSounds = False,
            showOnboarding = True\<rparr>
      else \<lparr>defaultProjectId =
              (case getProp v ''defaultProjectId'' of JStr s \<Rightarrow> Val s | JNull \<Rightarrow> Null | _ \<Rightarrow> Null),
            confirmBeforeDelete = coerceBool (getProp v ''confirmBeforeDelete'') True,
            enableSounds = coerceBool (getProp v ''enableSounds'') False,
            showOnboarding = coerceBool (getProp v ''showOnboarding'') True\<rparr>)"

definition getInitialState :: "string \<Rightarrow> PersistedState" where
  "getInitialState now =
     (let defaultProject =
            \<lparr>id_project = ''inbox'', name_project = ''Inbox'', color = ''sky'',
             createdAt_project = now\<rparr>;
          sampleTask =
            \<lparr>id_task = ''welcome-task'', title = ''Welcome to FocusFlow'',
             description = Some ''Edit or complete this task to get a feel for the workflow.'',
             status = Todo, priority = Medium, projectId = Val (id_project defaultProject),
             dueDate = Undefined, createdAt = now, updatedAt = now, completedAt = Null,
             isPinned = Some True, tags = Some [''getting-started'']\<rparr>
      in \<lparr>version = CURRENT_VERSION, tasks = [sampleTask], projects = [defaultProject],
          settings = \<lparr>defaultProjectId = Val (id_project defaultProject),
                      confirmBeforeDelete = True, enableSounds = False, showOnboarding = True\<rparr>,
          completionHistory = []\<rparr>)"

text \<open>
  \<^verbatim>\<open>coerceArray<T>\<close> casts the parsed array to \<^verbatim>\<open>T[]\<close> without looking at its elements,
  so the collections that \<^verbatim>\<open>loadState\<close> returns hold whatever was parsed. The state
  as it is at run time:
\<close>

record PersistedRaw =
  version_raw :: jsnum
  tasks_raw :: "jsval list"
  projects_raw :: "jsval list"
  settings_raw :: AppSettings
  completionHistory_raw :: "jsval list"

text \<open>
  The run-time objects of well-typed values. A key whose value is \<^verbatim>\<open>undefined\<close> reads
  like an absent key, so it is left out of the object.
\<close>

definition own_prop :: "string \<Rightarrow> jsval \<Rightarrow> (string \<times> jsval) list" where
  "own_prop k v = (if v = JUndefined then [] else [(k, v)])"

fun js_of_nullable :: "string nullable \<Rightarrow> jsval" where
  "js_of_nullable Undefined = JUndefined"
| "js_of_nullable Null = JNull"
| "js_of_nullable (Val s) = JStr s"

fun js_of_status :: "TaskStatus \<Rightarrow> jsval" where
  "js_of_status Todo = JStr ''todo''"
| "js_of_status InProgress = JStr ''in-progress''"
| "js_of_status Done = JStr ''done''"
| "js_of_status Archived = JStr ''archived''"

fun js_of_priority :: "TaskPriority \<Rightarrow> jsval" where
  "js_of_priority Low = JStr ''low''"
| "js_of_priority Medium = JStr ''medium''"
| "js_of_priority High = JStr ''high''"

definition js_of_task :: "Task \<Rightarrow> jsval" where
  "js_of_task t =
     JObj ([(''id'', JStr (id_task t)), (''title'', JStr (title t))]
           @ own_prop ''description'' (case description t of None \<Rightarrow> JUndefined | Some d \<Rightarrow> JStr d)
           @ [(''status'', js_of_status (status t)), (''priority'', js_of_priority (priority t))]
           @ own_prop ''projectId'' (js_of_nullable (projectId t))
           @ own_prop ''dueDate'' (js_of_nullable (dueDate t))
           @ [(''createdAt'', JStr (createdAt t)), (''updatedAt'', JStr (updatedAt t))]
           @ own_prop ''completedAt'' (js_of_nullable (completedAt t))
           @ own_prop ''isPinned'' (case isPinned t of None \<Rightarrow> JUndefined | Some b \<Rightarrow> JBool b)
           @ own_prop ''tags'' (case tags t of None \<Rightarrow> JUndefined | Some ts \<Rightarrow> JArr (map JStr ts)))"

definition js_of_project :: "Project \<Rightarrow> jsval" where
  "js_of_project p =
     JObj [(''id'', JStr (id_project p)), (''name'', JStr (name_project p)),
           (''color'', JStr (color p)), (''createdAt'', JStr (createdAt_project p))]"

definition js_of_entry :: "CompletionEntry \<Rightarrow> jsval" where
  "js_of_entry e = JObj [(''date'', JStr (date e)), (''count'', JNum (count e))]"

definition js_of_settings :: "AppSettings \<Rightarrow> jsval" where
  "js_of_settings s =
     JObj ([(''confirmBeforeDelete'', JBool (confirmBeforeDelete s)),
            (''enableSounds'', JBool (enableSounds s)),
            (''showOnboarding'', JBool (showOnboarding s))]
           @ own_prop ''defaultProjectId'' (js_of_nullable (defaultProjectId s)))"

definition persisted_props :: "'a PersistedState_scheme \<Rightarrow> (string \<times> jsval) list" where
  "persisted_props s =
     [(''version'', JNum (version s)),
      (''tasks'', JArr (map js_of_task (tasks s))),
      (''projects'', JArr (map js_of_project (projects s))),
      (''settings'', js_of_settings (settings s)),
      (''completionHistory'', JArr (map js_of_entry (completionHistory s)))]"

definition js_of_persisted :: "PersistedState \<Rightarrow> jsval" where
  "js_of_persisted s = JObj (persisted_props s)"

text \<open>The reducer's state object carries the key \<^verbatim>\<open>lastDeletedTask\<close> as well.\<close>

definition js_of_state :: "State \<Rightarrow> jsval" where
  "js_of_state s =
     JObj (persisted_props s
           @ [(''lastDeletedTask'',
               (case lastDeletedTask s of None \<Rightarrow> JNull | Some t \<Rightarrow> js_of_task t))])"

definition raw_of :: "PersistedState \<Rightarrow> PersistedRaw" where
  "raw_of s =
     \<lparr>version_raw = version s,
      tasks_raw = map js_of_task (tasks s),
      projects_raw = map js_of_project (projects s),
      settings_raw = settings s,
      completionHistory_raw = map js_of_entry (completionHistory s)\<rparr>"

text \<open>
  \<^verbatim>\<open>window.localStorage\<close>: reading or writing throws when the storage is disabled,
  writing throws when the quota is exceeded. \<open>None\<close> for the storage is the server,
  where \<^verbatim>\<open>typeof window === "undefined"\<close>.
\<close>

record Storage =
  access_denied :: bool
  quota_exceeded :: bool
  items :: "string \<Rightarrow> stored option"

text \<open>The body of the \<^verbatim>\<open>try\<close> block of \<^verbatim>\<open>loadState\<close>.\<close>

definition loadState_try :: "string \<Rightarrow> Storage \<Rightarrow> exn + PersistedRaw" where
  "loadState_try now st =
     (if access_denied st then Inl SecurityError
      else (case items st STORAGE_KEY of
              None \<Rightarrow> Inr (raw_of (getInitialState now))
            | Some raw \<Rightarrow>
                if is_empty_text raw then Inr (raw_of (getInitialState now))
                else (case JSON_parse raw of
                        Inl e \<Rightarrow> Inl e
                      | Inr parsed \<Rightarrow>
                          if \<not> isObject parsed then Inr (raw_of (getInitialState now))
                          else Inr \<lparr>version_raw =
                                      (case getProp parsed ''version'' of
                                         JNum (Fin r) \<Rightarrow> Fin r
                                       | _ \<Rightarrow> CURRENT_VERSION),
                                    tasks_raw = coerceArray (getProp parsed ''tasks''),
                                    projects_raw = coerceArray (getProp parsed ''projects''),
                                    settings_raw = coerceSettings (getProp parsed ''settings''),
                                    completionHistory_raw =
                                      coerceArray (getProp parsed ''completionHistory'')\<rparr>)))"

definition loadState :: "string \<Rightarrow> Storage option \<Rightarrow> PersistedRaw" where
  "loadState now win =
     (case win of
        None \<Rightarrow> raw_of (getInitialState now)
      | Some st \<Rightarrow>
          (case loadState_try now st of
             Inl e \<Rightarrow> raw_of (getInitialState now)
           | Inr s \<Rightarrow> s))"

text \<open>The body of the \<^verbatim>\<open>try\<close> block of \<^verbatim>\<open>saveState\<close>.\<close>

definition saveState_try :: "Storage \<Rightarrow> jsval \<Rightarrow> exn + Storage" where
  "saveState_try st next =
     (let serialised = JSON_stringify next
      in if access_denied st then Inl SecurityError
         else if quota_exceeded st then Inl QuotaExceededError
         else Inr (st\<lparr>items := (items st)(STORAGE_KEY \<mapsto> serialised)\<rparr>))"

definition saveState :: "Storage option \<Rightarrow> jsval \<Rightarrow> Storage option" where
  "saveState win next =
     (case win of
        None \<Rightarrow> None
      | Some st \<Rightarrow> (case saveState_try st next of Inl e \<Rightarrow> Some st | Inr st' \<Rightarrow> Some st'))"

text \<open>The effect \<^verbatim>\<open>useEffect(() => { saveState(state); }, [state])\<close> of the hook.\<close>

definition persist :: "Storage option \<Rightarrow> State \<Rightarrow> Storage option" where
  "persist win state = saveState win (js_of_state state)"

section \<open>Predicates of the specification and example values\<close>

text \<open>The invariant of a task: \<^verbatim>\<open>completedAt != null\<close> exactly when the status is done.\<close>

definition task_inv :: "Task \<Rightarrow> bool" where
  "task_inv t = (is_set (completedAt t) = (status t = Done))"

text \<open>The invariant on the task list and on the task held in the undo slot.\<close>

definition state_inv :: "State \<Rightarrow> bool" where
  "state_inv s =
     (list_all task_inv (tasks s) \<and>
      (case lastDeletedTask s of None \<Rightarrow> True | Some t \<Rightarrow> task_inv t))"

text \<open>
  A patch that leaves status and \<^verbatim>\<open>completedAt\<close> alone, or sets both so that they
  agree (as \<^verbatim>\<open>handleComplete\<close> does).
\<close>

definition patch_coherent :: "TaskPatch \<Rightarrow> bool" where
  "patch_coherent p =
     (case (status_patch p, completedAt_patch p) of
        (None, None) \<Rightarrow> True
      | (Some st, Some c) \<Rightarrow> is_set c = (st = Done)
      | _ \<Rightarrow> False)"

text \<open>
  The actions under which the reducer keeps the invariant: a hydration payload whose
  tasks satisfy it, a coherent patch, a bulk update to done or one that selects no done
  task, and every other action.
\<close>

fun action_ok :: "State \<Rightarrow> Action \<Rightarrow> bool" where
  "action_ok s (Hydrate payload) = list_all task_inv (tasks payload)"
| "action_ok s (UpdateTask i patch) = patch_coherent patch"
| "action_ok s (BulkUpdateStatus ids st) =
     (st = Done \<or> list_all (\<lambda>t. id_task t \<in> set ids \<longrightarrow> status t \<noteq> Done) (tasks s))"
| "action_ok s a = True"

text \<open>
  The well-formed persisted states of the round trip: a finite version, settings with
  every declared field (a \<^verbatim>\<open>defaultProjectId\<close> that is a string or \<^verbatim>\<open>null\<close>) and finite
  counts; tasks and projects are well-typed by construction.
\<close>

fun is_finite :: "jsnum \<Rightarrow> bool" where
  "is_finite (Fin r) = True"
| "is_finite n = False"

definition well_formed :: "PersistedState \<Rightarrow> bool" where
  "well_formed s =
     (is_finite (version s) \<and> defaultProjectId (settings s) \<noteq> Undefined \<and>
      list_all (\<lambda>e. is_finite (count e)) (completionHistory s))"

definition defaultSettings :: AppSettings where
  "defaultSettings =
     \<lparr>defaultProjectId = Null, confirmBeforeDelete = True, enableSounds = False,
      showOnboarding = True\<rparr>"


definition exTask :: "string \<Rightarrow> TaskStatus \<Rightarrow> string nullable \<Rightarrow> Task" where
  "exTask i st c =
     \<lparr>id_task = i, title = ''Write report'', description = None, status = st,
      priority = Medium, projectId = Null, dueDate = Null,
      createdAt = ''2024-05-01T09:00:00.000Z'', updatedAt = ''2024-05-01T09:00:00.000Z'',
      completedAt = c, isPinned = Some False, tags = Some []\<rparr>"

definition exState :: "Task list \<Rightarrow> Task option \<Rightarrow> State" where
  "exState ts slot =
     \<lparr>version = Fin 1, tasks = ts, projects = [], settings = defaultSettings,
      completionHistory = computeCompletionHistory ts, lastDeletedTask = slot\<rparr>"

definition exInput :: "string \<Rightarrow> CreateTaskInput" where
  "exInput ttl =
     \<lparr>title_in = ttl, description_in = None, projectId_in = Undefined, priority_in = None,
      dueDate_in = Undefined\<rparr>"

definition exStorage :: "(string \<Rightarrow> stored option) \<Rightarrow> Storage" where
  "exStorage m = \<lparr>access_denied = False, quota_exceeded = False, items = m\<rparr>"












text \<open>The blob under the storage key, if the storage holds one.\<close>

fun stored_blob :: "Storage option \<Rightarrow> stored option" where
  "stored_blob None = None"
| "stored_blob (Some st) = items st STORAGE_KEY"

definition exPersisted :: PersistedState where
  "exPersisted =
     \<lparr>version = Fin 1,
      tasks = [exTask ''a'' Done (Val ''2024-05-01T12:00:00.000Z''), exTask ''b'' Todo Null],
      projects = [\<lparr>id_project = ''inbox'', name_project = ''Inbox'', color = ''sky'',
                   createdAt_project = ''2024-05-01T09:00:00.000Z''\<rparr>],
      settings = defaultSettings,
      completionHistory = [\<lparr>date = ''2024-05-01'', count = Fin 1\<rparr>]\<rparr>"

text \<open>
  Two clocks for the examples, both on 2 May 2024: 10:00 UTC in a zone at UTC, and
  10:00 local time (04:30 UTC) in a zone five and a half hours east of UTC.
\<close>

definition exClock :: Clock where
  "exClock = \<lparr>nowMs = 1714644000000, tzMinutes = 0\<rparr>"

definition exClockEast :: Clock where
  "exClockEast = \<lparr>nowMs = 1714624200000, tzMinutes = 330\<rparr>"

section \<open>Bulk status update\<close>

lemma bulkTask_done_completedAt:
  "completedAt (bulkTask ids Done now t) =
     (if id_task t \<in> set ids \<and> \<not> is_set (completedAt t) then Val now else completedAt t)"
  by (cases "completedAt t") (simp_all add: bulkTask_def)

lemma bulkTask_id: "id_task (bulkTask ids st now t) = id_task t"
  by (simp add: bulkTask_def)

lemma bulkTask_done_twice:
  "completedAt (bulkTask ids Done now2 (bulkTask ids Done now1 t))
     = completedAt (bulkTask ids Done now1 t)"
  by (simp add: bulkTask_done_completedAt bulkTask_id)

text \<open>
  Claim C7. Marking the same ids done twice in a row gives every task the
  \<^verbatim>\<open>completedAt\<close> that the first run gave it, whatever the clock shows at the second
  run; and the first run stamps exactly the selected tasks whose \<^verbatim>\<open>completedAt\<close> was
  \<^verbatim>\<open>null\<close> or \<^verbatim>\<open>undefined\<close>, every other task keeping the value it had.
\<close>

theorem bulk_done_idempotent_completedAt:
  "map completedAt (tasks (reducer now2 uid2 (reducer now1 uid1 S (BulkUpdateStatus ids Done))
       (BulkUpdateStatus ids Done)))
   = map completedAt (tasks (reducer now1 uid1 S (BulkUpdateStatus ids Done)))
   \<and> map completedAt (tasks (reducer now1 uid1 S (BulkUpdateStatus ids Done)))
     = map (\<lambda>t. if id_task t \<in> set ids \<and> \<not> is_set (completedAt t) then Val now1
                 else completedAt t) (tasks S)"
proof -
  let ?S1 = "reducer now1 uid1 S (BulkUpdateStatus ids Done)"
  have t1: "tasks ?S1 = map (bulkTask ids Done now1) (tasks S)"
    by (simp add: Let_def)
  have t2: "tasks (reducer now2 uid2 ?S1 (BulkUpdateStatus ids Done))
              = map (bulkTask ids Done now2) (tasks ?S1)"
    by (simp add: Let_def)
  have second: "map completedAt (map (bulkTask ids Done now2) (tasks ?S1))
                  = map completedAt (tasks ?S1)"
    unfolding t1 by (simp add: bulkTask_done_twice)
  have first: "map completedAt (tasks ?S1)
      = map (\<lambda>t. if id_task t \<in> set ids \<and> \<not> is_set (completedAt t) then Val now1
                 else completedAt t) (tasks S)"
    unfolding t1 by (simp add: bulkTask_done_completedAt)
  show ?thesis
  proof (intro conjI)
    show "map completedAt (tasks (reducer now2 uid2 ?S1 (BulkUpdateStatus ids Done)))
            = map completedAt (tasks ?S1)"
      by (simp only: t2 second)
    show "map completedAt (tasks ?S1)
      = map (\<lambda>t. if id_task t \<in> set ids \<and> \<not> is_set (completedAt t) then Val now1
                 else completedAt t) (tasks S)"
      by (rule first)
  qed
qed

theorem bulk_done_idempotent_completedAt_witness:
  "map completedAt (tasks (reducer ''2024-05-03T10:00:00.000Z'' ''u2''
       (reducer ''2024-05-02T10:00:00.000Z'' ''u1''
          (exState [exTask ''a'' Todo Null, exTask ''b'' Done (Val ''2024-05-01T12:00:00.000Z''),
                    exTask ''c'' Todo Null] None)
          (BulkUpdateStatus [''a'', ''b''] Done))
       (BulkUpdateStatus [''a'', ''b''] Done)))
   = [Val ''2024-05-02T10:00:00.000Z'', Val ''2024-05-01T12:00:00.000Z'', Null]"
  using bulk_done_idempotent_completedAt [of "''2024-05-03T10:00:00.000Z''" "''u2''"
      "''2024-05-02T10:00:00.000Z''" "''u1''"
      "exState [exTask ''a'' Todo Null, exTask ''b'' Done (Val ''2024-05-01T12:00:00.000Z''),
                    exTask ''c'' Todo Null] None" "[''a'', ''b'']"]
  by (simp add: exState_def exTask_def)

section \<open>Completion rate\<close>

text \<open>
  Claim C10. The completion rate is a finite number between 0 and 1, never
  \<^verbatim>\<open>NaN\<close> or an infinity: it is 0 for the empty task list and the quotient of the
  number of done tasks by the number of tasks otherwise.
\<close>

theorem completionRate_unit_interval:
  "completionRate (computeAnalytics clock T h) =
     Fin (if T = [] then 0
          else of_nat (length (filter (\<lambda>t. status t = Done) T)) / of_nat (length T))
   \<and> (\<exists>r. completionRate (computeAnalytics clock T h) = Fin r \<and> 0 \<le> r \<and> r \<le> 1)"
proof -
  let ?c = "length (filter (\<lambda>t. status t = Done) T)"
  have rate: "completionRate (computeAnalytics clock T h) =
     Fin (if T = [] then 0 else of_nat ?c / of_nat (length T))"
    by (simp add: computeAnalytics_def Let_def js_div_def)
  have le: "?c \<le> length T" by simp
  have "(0::rat) \<le> (if T = [] then 0 else of_nat ?c / of_nat (length T))" by simp
  moreover have "(if T = [] then 0 else of_nat ?c / of_nat (length T)) \<le> (1::rat)"
    using le by (simp add: divide_le_eq)
  ultimately show ?thesis using rate by blast
qed

theorem completionRate_unit_interval_witness:
  "completionRate (computeAnalytics exClock
      [exTask ''a'' Done (Val ''2024-05-01T12:00:00.000Z''), exTask ''b'' Todo Null] [])
   = Fin (1 / 2)"
  using completionRate_unit_interval [of exClock
      "[exTask ''a'' Done (Val ''2024-05-01T12:00:00.000Z''), exTask ''b'' Todo Null]" "[]"]
  by (simp add: exTask_def)

section \<open>The completion invariant under the reducer\<close>

lemma task_inv_newTask: "task_inv (newTask now uid S inp)"
  by (simp add: task_inv_def newTask_def)

lemma task_inv_mergeTask:
  "task_inv t \<Longrightarrow> patch_coherent p \<Longrightarrow> task_inv (mergeTask t p now)"
  by (auto simp: task_inv_def patch_coherent_def mergeTask_def split: option.splits)

lemma task_inv_bulkTask:
  "task_inv t \<Longrightarrow> st = Done \<or> (id_task t \<in> set ids \<longrightarrow> status t \<noteq> Done)
     \<Longrightarrow> task_inv (bulkTask ids st now t)"
  by (cases "completedAt t") (auto simp: task_inv_def bulkTask_def)

lemma find_task_inv:
  "list_all task_inv ts \<Longrightarrow> find P ts = Some t \<Longrightarrow> task_inv t"
  by (induction ts) (auto split: if_splits)

text \<open>
  Claim C1, as stated, fails: \<^verbatim>\<open>update-task\<close> merges the patch as it is, so a patch
  that only sets the status of a done task back to todo leaves its \<^verbatim>\<open>completedAt\<close> in
  place, and \<^verbatim>\<open>hydrate\<close> takes the tasks of its payload unchecked.
\<close>

theorem reducer_task_inv_counterexample:
  "list_all task_inv (tasks (exState [exTask ''a'' Done (Val ''2024-05-01T12:00:00.000Z'')] None))
   \<and> \<not> list_all task_inv (tasks (reducer ''2024-05-02T10:00:00.000Z'' ''k3x9''
          (exState [exTask ''a'' Done (Val ''2024-05-01T12:00:00.000Z'')] None)
          (UpdateTask ''a'' (emptyPatch\<lparr>status_patch := Some Todo\<rparr>))))
   \<and> map status (tasks (reducer ''2024-05-02T10:00:00.000Z'' ''k3x9''
          (exState [exTask ''a'' Done (Val ''2024-05-01T12:00:00.000Z'')] None)
          (UpdateTask ''a'' (emptyPatch\<lparr>status_patch := Some Todo\<rparr>)))) = [Todo]
   \<and> map completedAt (tasks (reducer ''2024-05-02T10:00:00.000Z'' ''k3x9''
          (exState [exTask ''a'' Done (Val ''2024-05-01T12:00:00.000Z'')] None)
          (UpdateTask ''a'' (emptyPatch\<lparr>status_patch := Some Todo\<rparr>))))
      = [Val ''2024-05-01T12:00:00.000Z'']
   \<and> \<not> list_all task_inv (tasks (reducer ''2024-05-02T10:00:00.000Z'' ''k3x9''
          (exState [exTask ''a'' Done (Val ''2024-05-01T12:00:00.000Z'')] None)
          (Hydrate \<lparr>version = Fin 1, tasks = [exTask ''b'' Done Null], projects = [],
                    settings = defaultSettings, completionHistory = []\<rparr>)))"
  by (simp add: exState_def exTask_def Let_def task_inv_def mergeTask_def emptyPatch_def)

text \<open>
  Claim C1, amended. From a state whose tasks and undo slot satisfy the invariant, the
  reducer reaches a state whose tasks and undo slot satisfy it, for: a hydration whose
  payload satisfies it; the creation, deletion and restoration of a task; an update whose
  patch leaves status and \<^verbatim>\<open>completedAt\<close> alone or sets both in agreement; a bulk update
  to done, or to another status when no selected task is done; a settings update; the
  creation of a project.
\<close>

theorem reducer_keeps_task_inv:
  assumes inv: "state_inv S" and ok: "action_ok S a"
  shows "state_inv (reducer now uid S a)"
proof (cases a)
  case (Hydrate payload)
  then show ?thesis using ok by (simp add: state_inv_def)
next
  case (CreateTask inp)
  then show ?thesis using inv by (simp add: state_inv_def Let_def task_inv_newTask)
next
  case (UpdateTask i patch)
  then show ?thesis using inv ok
    by (auto simp: state_inv_def Let_def list_all_iff task_inv_mergeTask)
next
  case (DeleteTask i)
  then show ?thesis using inv
    by (auto simp: state_inv_def Let_def list_all_iff split: option.splits
             dest: find_task_inv [unfolded list_all_iff])
next
  case (BulkUpdateStatus ids st)
  then show ?thesis using inv ok
    by (auto simp: state_inv_def Let_def list_all_iff intro!: task_inv_bulkTask)
next
  case RestoreLastDeleted
  then show ?thesis using inv
    by (auto simp: state_inv_def Let_def split: option.splits)
next
  case (UpdateSettings patch)
  then show ?thesis using inv by (simp add: state_inv_def)
next
  case (CreateProject nm col)
  then show ?thesis using inv by (simp add: state_inv_def)
qed

theorem reducer_keeps_task_inv_witness:
  "state_inv (reducer ''2024-05-02T10:00:00.000Z'' ''k3x9''
      (exState [exTask ''a'' Done (Val ''2024-05-01T12:00:00.000Z''), exTask ''b'' Todo Null] None)
      (BulkUpdateStatus [''b''] Done))
   \<and> state_inv (handleComplete ''2024-05-02T10:00:00.000Z'' ''k3x9''
      (exState [exTask ''a'' Done (Val ''2024-05-01T12:00:00.000Z''), exTask ''b'' Todo Null] None)
      (exTask ''a'' Done (Val ''2024-05-01T12:00:00.000Z'')))"
proof -
  let ?S = "exState [exTask ''a'' Done (Val ''2024-05-01T12:00:00.000Z''),
                     exTask ''b'' Todo Null] None"
  have inv: "state_inv ?S"
    by (simp add: state_inv_def exState_def exTask_def task_inv_def)
  have ok1: "action_ok ?S (BulkUpdateStatus [''b''] Done)" by simp
  have ok2: "action_ok ?S (UpdateTask ''a''
      (emptyPatch\<lparr>status_patch := Some Todo, completedAt_patch := Some Null\<rparr>))"
    by (simp add: patch_coherent_def emptyPatch_def)
  have hc: "handleComplete ''2024-05-02T10:00:00.000Z'' ''k3x9'' ?S
              (exTask ''a'' Done (Val ''2024-05-01T12:00:00.000Z''))
            = reducer ''2024-05-02T10:00:00.000Z'' ''k3x9'' ?S (UpdateTask ''a''
      (emptyPatch\<lparr>status_patch := Some Todo, completedAt_patch := Some Null\<rparr>))"
    by (simp add: handleComplete_def exTask_def Let_def)
  show ?thesis
    using reducer_keeps_task_inv [OF inv ok1] reducer_keeps_task_inv [OF inv ok2] hc
    by simp
qed

text \<open>
  A bulk update to a status other than done keeps the \<^verbatim>\<open>completedAt\<close> of a done task,
  where \<^verbatim>\<open>handleComplete\<close> resets it to \<^verbatim>\<open>null\<close>.
\<close>

lemma bulk_todo_keeps_completedAt:
  "map status (tasks (reducer ''2024-05-02T10:00:00.000Z'' ''k3x9''
          (exState [exTask ''a'' Done (Val ''2024-05-01T12:00:00.000Z'')] None)
          (BulkUpdateStatus [''a''] Todo))) = [Todo]
   \<and> map completedAt (tasks (reducer ''2024-05-02T10:00:00.000Z'' ''k3x9''
          (exState [exTask ''a'' Done (Val ''2024-05-01T12:00:00.000Z'')] None)
          (BulkUpdateStatus [''a''] Todo))) = [Val ''2024-05-01T12:00:00.000Z'']"
  by (simp add: exState_def exTask_def Let_def bulkTask_def)

section \<open>Creating a task\<close>

text \<open>
  Claim C2, as stated, fails: the reducer has no guard on the title, so a title of blanks
  adds a task whose title is empty.
\<close>

theorem createTask_blank_title_counterexample:
  "trim (title_in (exInput ''   '')) = [] \<and>
   reducer ''2024-05-02T10:00:00.000Z'' ''k3x9'' (exState [] None) (CreateTask (exInput ''   ''))
     \<noteq> exState [] None \<and>
   map title (tasks (reducer ''2024-05-02T10:00:00.000Z'' ''k3x9'' (exState [] None)
      (CreateTask (exInput ''   '')))) = [[]]"
  by (simp add: exInput_def exState_def newTask_def Let_def trim_def is_space_def)

text \<open>
  Claim C2, amended. The \<^verbatim>\<open>create-task\<close> action always puts one new task in front of
  the list, with the trimmed title (empty when the title trims to nothing), status todo
  and no \<^verbatim>\<open>completedAt\<close>; the empty title is stopped one level up, in
  \<^verbatim>\<open>handleCreateTask\<close>, which leaves the state as it is when the title trims to the empty
  string.
\<close>

theorem createTask_prepends:
  "tasks (reducer now uid S (CreateTask inp)) = newTask now uid S inp # tasks S
   \<and> title (newTask now uid S inp) = trim (title_in inp)
   \<and> status (newTask now uid S inp) = Todo
   \<and> completedAt (newTask now uid S inp) = Null
   \<and> (trim ttl = [] \<longrightarrow> handleCreateTask now uid S ttl = S)"
  by (simp add: Let_def newTask_def handleCreateTask_def)

theorem createTask_prepends_witness:
  "map title (tasks (reducer ''2024-05-02T10:00:00.000Z'' ''k3x9'' (exState [] None)
      (CreateTask (exInput ''  Buy milk  '')))) = [''Buy milk'']
   \<and> handleCreateTask ''2024-05-02T10:00:00.000Z'' ''k3x9'' (exState [] None) ''   ''
       = exState [] None"
  using createTask_prepends [of "''2024-05-02T10:00:00.000Z''" "''k3x9''" "exState [] None"
      "exInput ''  Buy milk  ''" "''   ''"]
  by (simp add: exInput_def exState_def trim_def is_space_def)

text \<open>A title of no-break spaces trims to the empty string as well.\<close>

lemma trim_no_break_space:
  "trim [CHR 0xA0, CHR '' '', CHR 0xA0] = []
   \<and> handleCreateTask now uid S [CHR 0xA0, CHR '' '', CHR 0xA0] = S"
  by (simp add: trim_def is_space_def handleCreateTask_def)

section \<open>Updating and deleting an id that matches no task\<close>

lemma map_id_if_absent:
  "i \<notin> set (map id_task ts) \<Longrightarrow>
     map (\<lambda>task. if id_task task = i then f task else task) ts = ts"
  by (induction ts) auto

lemma filter_absent: "i \<notin> set (map id_task ts) \<Longrightarrow> filter (\<lambda>t. id_task t \<noteq> i) ts = ts"
  by (induction ts) auto

lemma find_absent: "i \<notin> set (map id_task ts) \<Longrightarrow> find (\<lambda>t. id_task t = i) ts = None"
  by (induction ts) auto

text \<open>
  Claim C6, as stated, fails: deleting an id that matches no task stores
  \<^verbatim>\<open>find(...) ?? null\<close> in the undo slot, so a task held there is lost.
\<close>

theorem missing_id_delete_counterexample:
  "''zz'' \<notin> set (map id_task (tasks (exState [exTask ''a'' Todo Null]
                                        (Some (exTask ''b'' Todo Null)))))
   \<and> reducer ''2024-05-02T10:00:00.000Z'' ''k3x9''
        (exState [exTask ''a'' Todo Null] (Some (exTask ''b'' Todo Null))) (DeleteTask ''zz'')
      \<noteq> exState [exTask ''a'' Todo Null] (Some (exTask ''b'' Todo Null))
   \<and> lastDeletedTask (reducer ''2024-05-02T10:00:00.000Z'' ''k3x9''
        (exState [exTask ''a'' Todo Null] (Some (exTask ''b'' Todo Null))) (DeleteTask ''zz''))
      = None"
  by (simp add: exState_def exTask_def Let_def)

text \<open>
  Claim C6, amended. For an id that matches no task, \<^verbatim>\<open>update-task\<close> changes nothing
  but the completion history, which it recomputes from the unchanged task list, and
  \<^verbatim>\<open>delete-task\<close> does the same and empties the undo slot. So the update is a no-op
  when the history is the one derived from the tasks, and the deletion is a no-op when
  moreover the undo slot is empty.
\<close>

theorem missing_id_update_delete:
  assumes "i \<notin> set (map id_task (tasks S))"
  shows "reducer now uid S (UpdateTask i patch)
           = S\<lparr>completionHistory := computeCompletionHistory (tasks S)\<rparr>
       \<and> reducer now uid S (DeleteTask i)
           = S\<lparr>completionHistory := computeCompletionHistory (tasks S),
               lastDeletedTask := None\<rparr>
       \<and> (completionHistory S = computeCompletionHistory (tasks S) \<longrightarrow>
            reducer now uid S (UpdateTask i patch) = S)
       \<and> (completionHistory S = computeCompletionHistory (tasks S)
            \<and> lastDeletedTask S = None \<longrightarrow>
            reducer now uid S (DeleteTask i) = S)"
  using assms by (simp add: Let_def map_id_if_absent filter_absent find_absent)

theorem missing_id_update_delete_witness:
  "''zz'' \<notin> set (map id_task (tasks (exState [exTask ''a'' Todo Null] None)))
   \<and> reducer ''2024-05-02T10:00:00.000Z'' ''k3x9'' (exState [exTask ''a'' Todo Null] None)
        (UpdateTask ''zz'' (emptyPatch\<lparr>title_patch := Some ''New''\<rparr>))
      = exState [exTask ''a'' Todo Null] None
   \<and> reducer ''2024-05-02T10:00:00.000Z'' ''k3x9'' (exState [exTask ''a'' Todo Null] None)
        (DeleteTask ''zz'')
      = exState [exTask ''a'' Todo Null] None"
proof -
  have h: "''zz'' \<notin> set (map id_task (tasks (exState [exTask ''a'' Todo Null] None)))"
    by (simp add: exState_def exTask_def)
  have c: "completionHistory (exState [exTask ''a'' Todo Null] None)
             = computeCompletionHistory (tasks (exState [exTask ''a'' Todo Null] None))"
    by (simp add: exState_def)
  have l: "lastDeletedTask (exState [exTask ''a'' Todo Null] None) = None"
    by (simp add: exState_def)
  show ?thesis
    using missing_id_update_delete [OF h, of "''2024-05-02T10:00:00.000Z''" "''k3x9''"
        "emptyPatch\<lparr>title_patch := Some ''New''\<rparr>"] h c l
    by blast
qed

section \<open>Completion history and the count for today\<close>

lemma completedOn_Val:
  "completedOn k t = (\<exists>c. completedAt t = Val c \<and> c \<noteq> [] \<and> take 10 c = k)"
  by (cases "completedAt t") (auto simp: completedOn_def)

lemma map_of_byDate_step:
  "map_of (byDate_step m t) k =
     (if completedOn k t then Some ((case map_of m k of None \<Rightarrow> 0 | Some n \<Rightarrow> n) + 1)
      else map_of m k)"
  by (cases "completedAt t") (auto simp: completedOn_def update_conv' Let_def)

lemma distinct_byDate_step:
  "distinct (map fst m) \<Longrightarrow> distinct (map fst (byDate_step m t))"
  by (cases "completedAt t") (auto simp: distinct_update Let_def)

lemma map_of_byDate_loop:
  "map_of (byDate_loop m ts) k =
     (if length (filter (completedOn k) ts) = 0 then map_of m k
      else Some ((case map_of m k of None \<Rightarrow> 0 | Some n \<Rightarrow> n)
                 + length (filter (completedOn k) ts)))"
proof (induction ts arbitrary: m)
  case Nil
  show ?case by simp
next
  case (Cons t ts)
  show ?case
    by (simp only: byDate_loop.simps Cons.IH map_of_byDate_step)
       (auto split: option.splits)
qed

lemma distinct_byDate_loop:
  "distinct (map fst m) \<Longrightarrow> distinct (map fst (byDate_loop m ts))"
  by (induction ts arbitrary: m) (simp_all add: distinct_byDate_step del: byDate_step.simps)

lemma map_of_sort_key_fst:
  fixes xs :: "(string \<times> nat) list"
  assumes "distinct (map fst xs)"
  shows "map_of (sort_key fst xs) = map_of xs"
proof -
  have "distinct (map fst (sort_key fst xs))"
    using assms by (simp add: distinct_map)
  then show ?thesis
    using assms by (simp add: map_of_inject_set)
qed

lemma find_entry_map_of:
  "find (\<lambda>e. date e = k) (map (\<lambda>(d, c). \<lparr>date = d, count = Fin (of_nat c)\<rparr>) xs)
     = map_option (\<lambda>n. \<lparr>date = k, count = Fin (of_nat n)\<rparr>) (map_of xs k)"
  by (induction xs) auto

lemma find_computeCompletionHistory:
  "find (\<lambda>e. date e = k) (computeCompletionHistory ts)
     = (if length (filter (completedOn k) ts) = 0 then None
        else Some \<lparr>date = k, count = Fin (of_nat (length (filter (completedOn k) ts)))\<rparr>)"
proof -
  have d: "distinct (map fst (byDate_loop [] ts))"
    by (rule distinct_byDate_loop) simp
  have "find (\<lambda>e. date e = k) (computeCompletionHistory ts)
          = map_option (\<lambda>n. \<lparr>date = k, count = Fin (of_nat n)\<rparr>) (map_of (byDate_loop [] ts) k)"
    unfolding computeCompletionHistory_def
    by (simp only: find_entry_map_of map_of_sort_key_fst [OF d])
  then show ?thesis
    by (simp add: map_of_byDate_loop)
qed

text \<open>
  Claim C8. With the history computed from the task list, the entry for today's day key,
  when there is one, carries the number of tasks whose \<^verbatim>\<open>completedAt\<close> falls on that
  key, which is what the scan of the tasks counts; so \<^verbatim>\<open>tasksCompletedToday\<close> is that
  number on either path.
\<close>

theorem today_paths_agree:
  "tasksCompletedToday (computeAnalytics clock T (computeCompletionHistory T))
     = Fin (of_nat (length (filter
         (completedOn (toDateKey (startOfDay (tzMinutes clock) (nowMs clock)))) T)))
   \<and> (find (\<lambda>entry. date entry = toDateKey (startOfDay (tzMinutes clock) (nowMs clock)))
          (computeCompletionHistory T) = Some e \<longrightarrow>
        count e = Fin (of_nat (length (filter
          (completedOn (toDateKey (startOfDay (tzMinutes clock) (nowMs clock)))) T))))"
proof -
  let ?k = "toDateKey (startOfDay (tzMinutes clock) (nowMs clock))"
  have "tasksCompletedToday (computeAnalytics clock T (computeCompletionHistory T))
     = Fin (of_nat (length (filter (completedOn ?k) T)))"
    by (simp add: computeAnalytics_def Let_def find_computeCompletionHistory)
  moreover have "find (\<lambda>entry. date entry = ?k) (computeCompletionHistory T) = Some e \<longrightarrow>
        count e = Fin (of_nat (length (filter (completedOn ?k) T)))"
    by (auto simp: find_computeCompletionHistory split: if_splits)
  ultimately show ?thesis by blast
qed

lemma exClock_todayKey:
  "toDateKey (startOfDay (tzMinutes exClock) (nowMs exClock)) = ''2024-05-02''"
  by code_simp

lemma ex_history:
  "computeCompletionHistory
      [exTask ''a'' Done (Val ''2024-05-02T08:00:00.000Z''),
       exTask ''b'' Done (Val ''2024-05-01T12:00:00.000Z''),
       exTask ''c'' Done (Val ''2024-05-02T16:30:00.000Z''), exTask ''d'' Todo Null]
   = [\<lparr>date = ''2024-05-01'', count = Fin 1\<rparr>, \<lparr>date = ''2024-05-02'', count = Fin 2\<rparr>]"
  by (simp add: computeCompletionHistory_def exTask_def)

theorem today_paths_agree_witness:
  "find (\<lambda>entry. date entry = toDateKey (startOfDay (tzMinutes exClock) (nowMs exClock)))
     (computeCompletionHistory
      [exTask ''a'' Done (Val ''2024-05-02T08:00:00.000Z''),
       exTask ''b'' Done (Val ''2024-05-01T12:00:00.000Z''),
       exTask ''c'' Done (Val ''2024-05-02T16:30:00.000Z''), exTask ''d'' Todo Null])
     = Some \<lparr>date = ''2024-05-02'', count = Fin 2\<rparr>
   \<and> Fin 2 = Fin (of_nat (length (filter
       (completedOn (toDateKey (startOfDay (tzMinutes exClock) (nowMs exClock))))
      [exTask ''a'' Done (Val ''2024-05-02T08:00:00.000Z''),
       exTask ''b'' Done (Val ''2024-05-01T12:00:00.000Z''),
       exTask ''c'' Done (Val ''2024-05-02T16:30:00.000Z''), exTask ''d'' Todo Null])))"
proof -
  let ?T = "[exTask ''a'' Done (Val ''2024-05-02T08:00:00.000Z''),
       exTask ''b'' Done (Val ''2024-05-01T12:00:00.000Z''),
       exTask ''c'' Done (Val ''2024-05-02T16:30:00.000Z''), exTask ''d'' Todo Null]"
  let ?k = "toDateKey (startOfDay (tzMinutes exClock) (nowMs exClock))"
  have f: "find (\<lambda>entry. date entry = ?k) (computeCompletionHistory ?T)
             = Some \<lparr>date = ''2024-05-02'', count = Fin 2\<rparr>"
    unfolding exClock_todayKey by (simp add: ex_history)
  note c = today_paths_agree [of exClock ?T "\<lparr>date = ''2024-05-02'', count = Fin 2\<rparr>",
      THEN conjunct2, THEN mp, OF f]
  have "Fin 2 = Fin (of_nat (length (filter (completedOn ?k) ?T)))"
    using c by simp
  with f show ?thesis by (intro conjI)
qed

section \<open>The streak\<close>

lemma streak_loop_takeWhile:
  "offset \<le> 365 \<Longrightarrow>
   streak_loop tz today ts history offset streak
     = streak + length (takeWhile (hasCompletion ts history)
                          (map (loopKey tz today) [offset..<365]))"
proof (induction tz today ts history offset streak rule: streak_loop.induct)
  case (1 tz today ts history offset streak)
  show ?case
  proof (cases "offset < 365")
    case True
    then have upt: "[offset..<365] = offset # [offset + 1..<365]"
      by (simp add: upt_conv_Cons)
    show ?thesis
    proof (cases "hasCompletion ts history (loopKey tz today offset)")
      case hc: True
      have "streak_loop tz today ts history offset streak
              = streak_loop tz today ts history (offset + 1) (streak + 1)"
        using True hc by (subst streak_loop.simps) simp
      also have "\<dots> = streak + 1
          + length (takeWhile (hasCompletion ts history)
                      (map (loopKey tz today) [offset + 1..<365]))"
        using "1.IH" [OF True hc] True by simp
      finally show ?thesis using hc by (simp add: upt)
    next
      case False
      then show ?thesis using True by (subst streak_loop.simps) (simp add: upt)
    qed
  next
    case False
    with "1.prems" have "offset = 365" by simp
    then show ?thesis by (subst streak_loop.simps) simp
  qed
qed

text \<open>
  The streak is the length of the leading run of loop keys, over the offsets 0 to 364,
  that are in the history or on a completed task.
\<close>

lemma streakDays_run_of_keys:
  "streakDays (computeAnalytics clock T h)
     = length (takeWhile (hasCompletion T h)
         (map (loopKey (tzMinutes clock) (startOfDay (tzMinutes clock) (nowMs clock)))
            [0..<365]))
   \<and> streakDays (computeAnalytics clock T h) \<le> 365"
proof -
  have eq: "streakDays (computeAnalytics clock T h)
     = length (takeWhile (hasCompletion T h)
         (map (loopKey (tzMinutes clock) (startOfDay (tzMinutes clock) (nowMs clock)))
            [0..<365]))"
    by (simp add: computeAnalytics_def Let_def streak_loop_takeWhile)
  have "length (takeWhile (hasCompletion T h)
         (map (loopKey (tzMinutes clock) (startOfDay (tzMinutes clock) (nowMs clock)))
            [0..<365]))
          \<le> length (map (loopKey (tzMinutes clock)
                 (startOfDay (tzMinutes clock) (nowMs clock))) [0..<365])"
    by (rule length_takeWhile_le)
  then show ?thesis using eq by simp
qed

text \<open>
  Claim C9 does not hold of the code. The key of day 0 is the UTC date of the local
  midnight that \<^verbatim>\<open>startOfDay\<close> returns, and east of UTC that is the date of the day
  before. At 10:00 on 2 May in a zone at UTC+5:30, with one task completed the day
  before and none on 2 May, the day-0 key is 2024-05-01 and the streak is 1, where the
  claim and the comment on the loop (consecutive days including today) give 0.
\<close>

theorem streak_counts_yesterday_east_of_utc:
  "toISOString (nowMs exClockEast) = ''2024-05-02T04:30:00.000Z''
   \<and> getFullYear (tzMinutes exClockEast) (nowMs exClockEast) = 2024
   \<and> getMonth (tzMinutes exClockEast) (nowMs exClockEast) = 4
   \<and> getDate (tzMinutes exClockEast) (nowMs exClockEast) = 2
   \<and> toDateKey (startOfDay (tzMinutes exClockEast) (nowMs exClockEast)) = ''2024-05-01''
   \<and> \<not> hasCompletion [exTask ''b'' Done (Val ''2024-05-01T04:30:00.000Z'')]
         (computeCompletionHistory [exTask ''b'' Done (Val ''2024-05-01T04:30:00.000Z'')])
         ''2024-05-02''
   \<and> streakDays (computeAnalytics exClockEast
         [exTask ''b'' Done (Val ''2024-05-01T04:30:00.000Z'')]
         (computeCompletionHistory [exTask ''b'' Done (Val ''2024-05-01T04:30:00.000Z'')])) = 1"
  by code_simp

text \<open>At UTC the same tasks give a streak of 0, and two consecutive days ending today give 2.\<close>

lemma streak_gap_at_utc:
  "toDateKey (startOfDay (tzMinutes exClock) (nowMs exClock)) = ''2024-05-02''
   \<and> streakDays (computeAnalytics exClock
         [exTask ''b'' Done (Val ''2024-05-01T04:30:00.000Z'')]
         (computeCompletionHistory [exTask ''b'' Done (Val ''2024-05-01T04:30:00.000Z'')])) = 0"
  by code_simp

lemma streak_two_days:
  "streakDays (computeAnalytics exClock
      [exTask ''a'' Done (Val ''2024-05-02T08:00:00.000Z''),
       exTask ''b'' Done (Val ''2024-05-01T12:00:00.000Z'')]
      (computeCompletionHistory
        [exTask ''a'' Done (Val ''2024-05-02T08:00:00.000Z''),
         exTask ''b'' Done (Val ''2024-05-01T12:00:00.000Z'')])) = 2"
  by code_simp

section \<open>Loading from the storage\<close>















section \<open>Saving and loading again\<close>

lemma own_prop_jsonify:
  "v = JUndefined \<or> jsonify v = v \<Longrightarrow>
   map (\<lambda>kv. (fst kv, jsonify (snd kv))) (filter (\<lambda>kv. snd kv \<noteq> JUndefined) (own_prop k v))
     = own_prop k v"
  by (auto simp: own_prop_def)

lemma js_of_nullable_jsonify:
  "js_of_nullable x = JUndefined \<or> jsonify (js_of_nullable x) = js_of_nullable x"
  by (cases x) simp_all

lemma js_of_status_jsonify: "jsonify (js_of_status st) = js_of_status st"
  by (cases st) simp_all

lemma js_of_priority_jsonify: "jsonify (js_of_priority p) = js_of_priority p"
  by (cases p) simp_all

lemma js_of_status_defined: "js_of_status st \<noteq> JUndefined"
  by (cases st) simp_all

lemma js_of_priority_defined: "js_of_priority p \<noteq> JUndefined"
  by (cases p) simp_all

lemma description_jsonify:
  "(case d of None \<Rightarrow> JUndefined | Some x \<Rightarrow> JStr x) = JUndefined \<or>
   jsonify (case d of None \<Rightarrow> JUndefined | Some x \<Rightarrow> JStr x)
     = (case d of None \<Rightarrow> JUndefined | Some x \<Rightarrow> JStr x)"
  by (cases d) simp_all

lemma isPinned_jsonify:
  "(case b of None \<Rightarrow> JUndefined | Some x \<Rightarrow> JBool x) = JUndefined \<or>
   jsonify (case b of None \<Rightarrow> JUndefined | Some x \<Rightarrow> JBool x)
     = (case b of None \<Rightarrow> JUndefined | Some x \<Rightarrow> JBool x)"
  by (cases b) simp_all

lemma tags_jsonify:
  "(case ts of None \<Rightarrow> JUndefined | Some xs \<Rightarrow> JArr (map JStr xs)) = JUndefined \<or>
   jsonify (case ts of None \<Rightarrow> JUndefined | Some xs \<Rightarrow> JArr (map JStr xs))
     = (case ts of None \<Rightarrow> JUndefined | Some xs \<Rightarrow> JArr (map JStr xs))"
  by (cases ts) (simp_all add: comp_def)

lemma js_of_task_jsonify: "jsonify (js_of_task t) = js_of_task t"
  unfolding js_of_task_def
  by (simp add: own_prop_jsonify js_of_nullable_jsonify js_of_status_jsonify
      js_of_priority_jsonify js_of_status_defined js_of_priority_defined description_jsonify
      isPinned_jsonify tags_jsonify)

lemma js_of_task_defined: "js_of_task t \<noteq> JUndefined"
  by (simp add: js_of_task_def)

lemma js_of_project_jsonify: "jsonify (js_of_project p) = js_of_project p"
  by (simp add: js_of_project_def)

lemma js_of_entry_jsonify: "is_finite (count e) \<Longrightarrow> jsonify (js_of_entry e) = js_of_entry e"
  by (cases "count e") (simp_all add: js_of_entry_def)

lemma js_of_settings_jsonify: "jsonify (js_of_settings s) = js_of_settings s"
  unfolding js_of_settings_def
  by (simp add: own_prop_jsonify js_of_nullable_jsonify)

lemma js_of_settings_defined: "js_of_settings s \<noteq> JUndefined"
  by (simp add: js_of_settings_def)

lemma coerceSettings_js_of_settings:
  "defaultProjectId s \<noteq> Undefined \<Longrightarrow> coerceSettings (js_of_settings s) = s"
  by (cases "defaultProjectId s")
     (simp_all add: coerceSettings_def js_of_settings_def own_prop_def)

lemma persisted_props_jsonify:
  assumes "is_finite (version s)"
    and "list_all (\<lambda>e. is_finite (count e)) (completionHistory s)"
  shows "map (\<lambda>kv. (fst kv, jsonify (snd kv)))
           (filter (\<lambda>kv. snd kv \<noteq> JUndefined) (persisted_props s)) = persisted_props s"
proof -
  obtain r where v: "version s = Fin r" using assms(1) by (cases "version s") simp_all
  have h: "map (jsonify \<circ> js_of_entry) (completionHistory s)
             = map js_of_entry (completionHistory s)"
    using assms(2) by (simp add: list_all_iff js_of_entry_jsonify)
  show ?thesis
    unfolding persisted_props_def
    using h by (simp add: v js_of_settings_defined js_of_settings_jsonify js_of_task_jsonify
          js_of_project_jsonify comp_def)
qed

lemma getProp_persisted_props:
  "getProp (JObj (persisted_props s)) ''version'' = JNum (version s)"
  "getProp (JObj (persisted_props s)) ''tasks'' = JArr (map js_of_task (tasks s))"
  "getProp (JObj (persisted_props s)) ''projects'' = JArr (map js_of_project (projects s))"
  "getProp (JObj (persisted_props s)) ''settings'' = js_of_settings (settings s)"
  "getProp (JObj (persisted_props s)) ''completionHistory''
     = JArr (map js_of_entry (completionHistory s))"
  by (simp_all add: persisted_props_def)

text \<open>
  Claim C4. In a storage that accepts the write, loading right after saving a
  well-formed persisted state gives that state back.
\<close>

theorem load_save_roundtrip:
  assumes wf: "well_formed S"
    and acc: "\<not> access_denied st" and quota: "\<not> quota_exceeded st"
  shows "loadState now (saveState (Some st) (js_of_persisted S)) = raw_of S"
proof -
  have fin: "is_finite (version S)"
    and dp: "defaultProjectId (settings S) \<noteq> Undefined"
    and cnt: "list_all (\<lambda>e. is_finite (count e)) (completionHistory S)"
    using wf by (simp_all add: well_formed_def)
  obtain r where v: "version S = Fin r" using fin by (cases "version S") simp_all
  have blob: "JSON_stringify (js_of_persisted S) = Json (JObj (persisted_props S))"
    by (simp add: js_of_persisted_def persisted_props_jsonify [OF fin cnt])
  have saved: "saveState (Some st) (js_of_persisted S)
      = Some (st\<lparr>items := (items st)(STORAGE_KEY \<mapsto> Json (JObj (persisted_props S)))\<rparr>)"
    using acc quota by (simp add: saveState_def saveState_try_def blob)
  show ?thesis
    unfolding saved
    using acc
    by (simp add: loadState_def loadState_try_def getProp_persisted_props v raw_of_def
        coerceSettings_js_of_settings [OF dp] del: getProp.simps)
qed

theorem load_save_roundtrip_witness:
  "well_formed exPersisted
   \<and> \<not> access_denied (exStorage Map.empty) \<and> \<not> quota_exceeded (exStorage Map.empty)
   \<and> loadState ''2024-05-02T10:00:00.000Z''
        (saveState (Some (exStorage Map.empty)) (js_of_persisted exPersisted))
      = raw_of exPersisted"
proof -
  have wf: "well_formed exPersisted"
    by (simp add: well_formed_def exPersisted_def defaultSettings_def)
  have acc: "\<not> access_denied (exStorage Map.empty)" by (simp add: exStorage_def)
  have quota: "\<not> quota_exceeded (exStorage Map.empty)" by (simp add: exStorage_def)
  show ?thesis
    using load_save_roundtrip [OF wf acc quota, of "''2024-05-02T10:00:00.000Z''"] wf acc quota
    by blast
qed

section \<open>What the persist effect writes\<close>

text \<open>
  Claim C3 does not hold of the code: the effect hands the whole reducer state to
  \<^verbatim>\<open>saveState\<close>, and \<^verbatim>\<open>JSON.stringify\<close> writes every key of it. After a deletion the
  stored blob has the key \<^verbatim>\<open>lastDeletedTask\<close>, holding the deleted task.
\<close>

theorem persist_writes_undo_slot:
  "(case stored_blob (persist (Some (exStorage Map.empty))
            (reducer ''2024-05-02T10:00:00.000Z'' ''k3x9''
               (exState [exTask ''a'' Todo Null] None) (DeleteTask ''a''))) of
      Some (Json v) \<Rightarrow> getProp v ''lastDeletedTask''
    | _ \<Rightarrow> JUndefined)
   = js_of_task (exTask ''a'' Todo Null)"
proof -
  have del: "reducer ''2024-05-02T10:00:00.000Z'' ''k3x9''
               (exState [exTask ''a'' Todo Null] None) (DeleteTask ''a'')
             = exState [] (Some (exTask ''a'' Todo Null))"
    by (simp add: exState_def exTask_def Let_def)
  have j: "jsonify (js_of_task (exTask ''a'' Todo Null)) = js_of_task (exTask ''a'' Todo Null)"
    by (rule js_of_task_jsonify)
  have d: "js_of_task (exTask ''a'' Todo Null) \<noteq> JUndefined"
    by (rule js_of_task_defined)
  show ?thesis
    unfolding del
    by (simp add: persist_def saveState_def saveState_try_def exStorage_def js_of_state_def
        persisted_props_def exState_def computeCompletionHistory_def j d
        js_of_settings_defined)
qed

end
